theory Spec2Isabelle
  imports Complex_Main "HOL-Library.Word" "HOL-Library.Monad_Syntax" "HOL-Library.Sublist"
begin

section \<open>Image enhancement tool: the model of \<^verbatim>\<open>MainCode.py\<close>\<close>

text \<open>
  \<^verbatim>\<open>MainCode.py\<close> is an interactive editor: \<^verbatim>\<open>main\<close> loads one image, then reads
  menu choices from standard input and hands the current image to one of seven adjustment
  functions, to \<^verbatim>\<open>show\<close> or to \<^verbatim>\<open>save_image\<close>. Every adjustment function is a short
  sequence of calls into NumPy, scikit-image, OpenCV and Pillow.

  The model keeps that shape. Python objects (Pillow images and NumPy arrays) live in an
  object store and are passed by reference; every library call reads its arguments from the
  store and allocates its result there; the one in-place write of the program
  (\<^verbatim>\<open>ycrcb[:, :, 0] = ...\<close>) updates the store. What the libraries compute on the pixel
  values is not part of the repository: it is a parameter of the model (the record
  \<open>lib\<close> below), except for \<^verbatim>\<open>np.clip\<close>, \<^verbatim>\<open>img_as_float\<close> and \<^verbatim>\<open>adjust_log\<close>, written
  out from their documentation, and for the \<^verbatim>\<open>ImageEnhance\<close> blend, written out from the
  spec. A call returns \<open>None\<close> where Python raises: an argument that is not of the expected
  kind, two shapes that do not fit, a gamma that scikit-image refuses; \<^verbatim>\<open>image.save\<close> can
  raise too. Other exceptions from inside the libraries are not modelled.
\<close>

subsection \<open>Pixel buffers and the object store\<close>

type_synonym u8 = "8 word"
type_synonym 'a array2 = "'a list list"
type_synonym 'a array3 = "'a list list list"

text \<open>An array of shape (height, width, channels) is a list of rows of pixels of channel
  values. The shape of an array is the list of its pixels' channel counts, row by row.\<close>

definition shape2 :: "'a array2 \<Rightarrow> nat list" where
  "shape2 p = map length p"

definition shape3 :: "'a array3 \<Rightarrow> nat list list" where
  "shape3 a = map (map length) a"

text \<open>A Python float is a real number, an infinity or NaN; \<^verbatim>\<open>float\<close> accepts the words
  \<^verbatim>\<open>inf\<close> and \<^verbatim>\<open>nan\<close>. Rounding is not modelled: the finite floats are the reals.\<close>

datatype float = Finite real | PInf | NInf | NaN

definition signed_inf :: "real \<Rightarrow> float" where
  "signed_inf s = (if s > 0 then PInf else if s < 0 then NInf else NaN)"

fun fmul :: "float \<Rightarrow> float \<Rightarrow> float" where
  "fmul (Finite a) (Finite b) = Finite (a * b)"
| "fmul NaN _ = NaN"
| "fmul _ NaN = NaN"
| "fmul (Finite a) PInf = signed_inf a"
| "fmul (Finite a) NInf = signed_inf (- a)"
| "fmul PInf (Finite b) = signed_inf b"
| "fmul NInf (Finite b) = signed_inf (- b)"
| "fmul PInf PInf = PInf"
| "fmul PInf NInf = NInf"
| "fmul NInf PInf = NInf"
| "fmul NInf NInf = PInf"

fun fadd :: "float \<Rightarrow> float \<Rightarrow> float" where
  "fadd (Finite a) (Finite b) = Finite (a + b)"
| "fadd NaN _ = NaN"
| "fadd _ NaN = NaN"
| "fadd PInf NInf = NaN"
| "fadd NInf PInf = NaN"
| "fadd PInf _ = PInf"
| "fadd _ PInf = PInf"
| "fadd NInf _ = NInf"
| "fadd _ NInf = NInf"

datatype obj =
    Image "u8 array3"
  | U8Array "u8 array3"
  | U8Plane "u8 array2"
  | FloatArray "float array3"

type_synonym ref = nat
type_synonym heap = "obj list"

definition alloc :: "heap \<Rightarrow> obj \<Rightarrow> ref \<times> heap" where
  "alloc h ob = (length h, h @ [ob])"

definition image_at :: "heap \<Rightarrow> ref \<Rightarrow> u8 array3 option" where
  "image_at h r = (if r < length h then (case h ! r of Image d \<Rightarrow> Some d | _ \<Rightarrow> None) else None)"

definition u8_at :: "heap \<Rightarrow> ref \<Rightarrow> u8 array3 option" where
  "u8_at h r = (if r < length h then (case h ! r of U8Array a \<Rightarrow> Some a | _ \<Rightarrow> None) else None)"

definition plane_at :: "heap \<Rightarrow> ref \<Rightarrow> u8 array2 option" where
  "plane_at h r = (if r < length h then (case h ! r of U8Plane p \<Rightarrow> Some p | _ \<Rightarrow> None) else None)"

definition float_at :: "heap \<Rightarrow> ref \<Rightarrow> float array3 option" where
  "float_at h r = (if r < length h then (case h ! r of FloatArray a \<Rightarrow> Some a | _ \<Rightarrow> None) else None)"


subsection \<open>The libraries\<close>

datatype color_code = COLOR_RGB2YCrCb | COLOR_YCrCb2RGB

datatype enhancer = Brightness | Contrast | Sharpness | Color

text \<open>
  What the imported libraries compute on pixel values, and the built-ins whose result
  depends on the environment or on Python's float syntax:
  \<^item> \<open>lib_open\<close>: \<^verbatim>\<open>Image.open(path).convert('RGB')\<close>, the decoded pixels or the message of
    the exception raised;
  \<^item> \<open>lib_save\<close>: whether \<^verbatim>\<open>image.save(path, **options)\<close> returns; it raises for a path
    whose extension names no format, among others;
  \<^item> \<open>lib_float\<close>: \<^verbatim>\<open>float(s)\<close>, \<open>None\<close> for ValueError;
  \<^item> \<open>lib_adjust_gamma\<close>, \<open>lib_img_as_ubyte\<close>: scikit-image; \<^verbatim>\<open>adjust_gamma\<close> raises for a
    gamma it refuses (\<open>None\<close>);
  \<^item> \<open>lib_cvtColor\<close>, \<open>lib_equalizeHist\<close>: OpenCV;
  \<^item> \<open>lib_degenerate\<close>: the reference image an \<^verbatim>\<open>ImageEnhance\<close> object builds from its
    image (black, mean grey, smoothed, greyscale);
  \<^item> \<open>lib_nan_byte\<close>: what the conversion of a NaN to 8 bits gives inside Pillow (C leaves
    it open).
\<close>

datatype optval = IntV int | BoolV bool

type_synonym options = "(string \<times> optval) list"

record lib =
  lib_open :: "string \<Rightarrow> string + u8 array3"
  lib_save :: "u8 array3 \<Rightarrow> string \<Rightarrow> options \<Rightarrow> bool"
  lib_float :: "string \<Rightarrow> float option"
  lib_adjust_gamma :: "float array3 \<Rightarrow> float \<Rightarrow> float array3 option"
  lib_img_as_ubyte :: "float array3 \<Rightarrow> u8 array3"
  lib_cvtColor :: "u8 array3 \<Rightarrow> color_code \<Rightarrow> u8 array3"
  lib_equalizeHist :: "u8 array2 \<Rightarrow> u8 array2"
  lib_degenerate :: "enhancer \<Rightarrow> u8 array3 \<Rightarrow> u8 array3"
  lib_nan_byte :: u8

text \<open>\<^verbatim>\<open>np.array(image)\<close>: a new array with the image's pixels.\<close>

definition np_array :: "heap \<Rightarrow> ref \<Rightarrow> (ref \<times> heap) option" where
  "np_array h img = do { d \<leftarrow> image_at h img; Some (alloc h (U8Array d)) }"

text \<open>\<^verbatim>\<open>Image.fromarray(a)\<close>: a new image with the array's values.\<close>

definition fromarray :: "heap \<Rightarrow> ref \<Rightarrow> (ref \<times> heap) option" where
  "fromarray h a = do { d \<leftarrow> u8_at h a; Some (alloc h (Image d)) }"

text \<open>
  Modelled from the documentation of scikit-image, the function not being in the repository:
  \<^verbatim>\<open>img_as_float\<close> maps the unsigned 8-bit values 0 to 255 onto 0.0 to 1.0, that is
  \<open>v / 255\<close>.
\<close>

definition unit_of_byte :: "u8 \<Rightarrow> float" where
  "unit_of_byte v = Finite (real (unat v) / 255)"

definition img_as_float :: "heap \<Rightarrow> ref \<Rightarrow> (ref \<times> heap) option" where
  "img_as_float h a =
     do { d \<leftarrow> u8_at h a; Some (alloc h (FloatArray (map (map (map unit_of_byte)) d))) }"

definition img_as_ubyte :: "lib \<Rightarrow> heap \<Rightarrow> ref \<Rightarrow> (ref \<times> heap) option" where
  "img_as_ubyte L h a = do { x \<leftarrow> float_at h a; Some (alloc h (U8Array (lib_img_as_ubyte L x))) }"

definition adjust_gamma :: "lib \<Rightarrow> heap \<Rightarrow> ref \<Rightarrow> float \<Rightarrow> (ref \<times> heap) option" where
  "adjust_gamma L h a gamma =
     do { x \<leftarrow> float_at h a; y \<leftarrow> lib_adjust_gamma L x gamma; Some (alloc h (FloatArray y)) }"

text \<open>
  Modelled from the documentation of scikit-image, the function not being in the repository:
  \<^verbatim>\<open>exposure.adjust_log(image, gain)\<close> ``transforms the input image pixelwise according to the
  equation \<^verbatim>\<open>O = gain*log(1 + I)\<close> after scaling each pixel to the range 0 to 1''; the
  logarithm is to base 2, a float image is already in that range, and an image with a
  negative value is refused (ValueError).
\<close>

definition negative :: "float \<Rightarrow> bool" where
  "negative v = (case v of Finite r \<Rightarrow> r < 0 | NInf \<Rightarrow> True | _ \<Rightarrow> False)"

definition log2_1p :: "float \<Rightarrow> float" where
  "log2_1p v = (case v of Finite r \<Rightarrow> Finite (log 2 (1 + r)) | PInf \<Rightarrow> PInf | _ \<Rightarrow> NaN)"

definition log_curve :: "float \<Rightarrow> float \<Rightarrow> float" where
  "log_curve gain v = fmul (log2_1p v) gain"

definition adjust_log :: "heap \<Rightarrow> ref \<Rightarrow> float \<Rightarrow> (ref \<times> heap) option" where
  "adjust_log h a gain =
     do { x \<leftarrow> float_at h a;
          if list_ex (list_ex (list_ex negative)) x then None
          else Some (alloc h (FloatArray (map (map (map (log_curve gain))) x))) }"

text \<open>\<^verbatim>\<open>np.clip(a, lo, hi)\<close> is \<^verbatim>\<open>minimum(hi, maximum(a, lo))\<close>, element by element, in a
  new array; a NaN stays a NaN.\<close>

definition clip :: "real \<Rightarrow> real \<Rightarrow> float \<Rightarrow> float" where
  "clip lo hi v =
     (case v of
        Finite r \<Rightarrow> Finite (min hi (max r lo))
      | PInf \<Rightarrow> Finite hi
      | NInf \<Rightarrow> Finite (min hi lo)
      | NaN \<Rightarrow> NaN)"

definition np_clip :: "heap \<Rightarrow> ref \<Rightarrow> real \<Rightarrow> real \<Rightarrow> (ref \<times> heap) option" where
  "np_clip h a lo hi =
     do { x \<leftarrow> float_at h a; Some (alloc h (FloatArray (map (map (map (clip lo hi))) x))) }"

definition cvtColor :: "lib \<Rightarrow> heap \<Rightarrow> ref \<Rightarrow> color_code \<Rightarrow> (ref \<times> heap) option" where
  "cvtColor L h a code = do { d \<leftarrow> u8_at h a; Some (alloc h (U8Array (lib_cvtColor L d code))) }"

text \<open>The slice \<^verbatim>\<open>a[:, :, 0]\<close> needs a channel 0 in every pixel (IndexError otherwise).\<close>

definition channel0 :: "'a array3 \<Rightarrow> 'a array2 option" where
  "channel0 a = (if \<forall>row \<in> set a. \<forall>px \<in> set row. px \<noteq> [] then Some (map (map hd) a) else None)"

text \<open>\<^verbatim>\<open>cv2.equalizeHist(a[:, :, 0])\<close>: reads channel 0 of the array through the view and
  returns a new plane.\<close>

definition equalizeHist :: "lib \<Rightarrow> heap \<Rightarrow> ref \<Rightarrow> (ref \<times> heap) option" where
  "equalizeHist L h a =
     do { d \<leftarrow> u8_at h a; p \<leftarrow> channel0 d; Some (alloc h (U8Plane (lib_equalizeHist L p))) }"

text \<open>\<^verbatim>\<open>a[:, :, 0] = p\<close> writes the plane into channel 0 of the array \<^emph>\<open>in place\<close>. NumPy
  raises ValueError when the plane does not fit the array; a plane of another shape that
  NumPy could still broadcast is treated as not fitting.\<close>

definition assign_channel0 :: "'a array3 \<Rightarrow> 'a array2 \<Rightarrow> 'a array3 option" where
  "assign_channel0 a p =
     (if (\<forall>row \<in> set a. \<forall>px \<in> set row. px \<noteq> []) \<and> shape2 p = shape2 a
      then Some (map2 (map2 (\<lambda>v px. v # tl px)) p a) else None)"

definition set_channel0 :: "heap \<Rightarrow> ref \<Rightarrow> ref \<Rightarrow> heap option" where
  "set_channel0 h a p =
     do { d \<leftarrow> u8_at h a; q \<leftarrow> plane_at h p; d' \<leftarrow> assign_channel0 d q;
          Some (h[a := U8Array d']) }"

text \<open>
  Modelled from the spec: \<^verbatim>\<open>ImageEnhance.X(image).enhance(factor)\<close> is Pillow code, not in
  the repository. The spec describes the four enhancers as a blend between a reference
  image and the image (brightness: scale from black; contrast: deviation from a grey
  reference; sharpness: from a smoothed version; saturation: from the greyscale version),
  with 8-bit results. The blend of two channel values is
  \<open>a + alpha * (b - a)\<close>, cut to 0..255 and truncated; two images of different shapes do not
  blend (Pillow raises ValueError). Where the factor is an infinity or NaN the blended value
  can be NaN, and its 8-bit value is the library's.
\<close>

definition cut_byte :: "lib \<Rightarrow> float \<Rightarrow> u8" where
  "cut_byte L t =
     (case t of
        Finite r \<Rightarrow> if r \<le> 0 then 0 else if r \<ge> 255 then 255 else of_int \<lfloor>r\<rfloor>
      | PInf \<Rightarrow> 255
      | NInf \<Rightarrow> 0
      | NaN \<Rightarrow> lib_nan_byte L)"

definition blend_px :: "lib \<Rightarrow> float \<Rightarrow> u8 \<Rightarrow> u8 \<Rightarrow> u8" where
  "blend_px L alpha a b =
     cut_byte L
       (fadd (Finite (real (unat a))) (fmul alpha (Finite (real (unat b) - real (unat a)))))"

definition blend :: "lib \<Rightarrow> heap \<Rightarrow> ref \<Rightarrow> ref \<Rightarrow> float \<Rightarrow> (ref \<times> heap) option" where
  "blend L h im1 im2 alpha =
     do { a \<leftarrow> image_at h im1; b \<leftarrow> image_at h im2;
          if shape3 a = shape3 b
          then Some (alloc h (Image (map2 (map2 (map2 (blend_px L alpha))) a b)))
          else None }"

definition enhance :: "lib \<Rightarrow> enhancer \<Rightarrow> heap \<Rightarrow> ref \<Rightarrow> float \<Rightarrow> (ref \<times> heap) option" where
  "enhance L k h img factor =
     do { d \<leftarrow> image_at h img;
          (degenerate, h1) \<leftarrow> Some (alloc h (Image (lib_degenerate L k d)));
          blend L h1 degenerate img factor }"

subsection \<open>Image I/O\<close>

definition load_image :: "lib \<Rightarrow> heap \<Rightarrow> string \<Rightarrow> string + ref \<times> heap" where
  "load_image L h path =
     (case lib_open L path of Inl msg \<Rightarrow> Inl msg | Inr d \<Rightarrow> Inr (alloc h (Image d)))"

text \<open>\<^verbatim>\<open>path.split('.')\<close>: the pieces between the dots, empty pieces included.\<close>

fun split :: "char \<Rightarrow> string \<Rightarrow> string list" where
  "split sep [] = [[]]"
| "split sep (c # cs) =
     (let ws = split sep cs in if c = sep then [] # ws else (c # hd ws) # tl ws)"

text \<open>\<^verbatim>\<open>str.lower()\<close>: the letters A to Z go to a to z. (Python also lowers letters beyond
  ASCII; none of them becomes a letter of \<^verbatim>\<open>jpg\<close>, \<^verbatim>\<open>jpeg\<close> or \<^verbatim>\<open>png\<close>.)\<close>

definition lower_char :: "char \<Rightarrow> char" where
  "lower_char c =
     (case map_of (zip ''ABCDEFGHIJKLMNOPQRSTUVWXYZ'' ''abcdefghijklmnopqrstuvwxyz'') c of
        None \<Rightarrow> c
      | Some l \<Rightarrow> l)"

definition lower :: "string \<Rightarrow> string" where
  "lower s = map lower_char s"

text \<open>Lines 35 to 40 of \<^verbatim>\<open>save_image\<close>: the keyword arguments for \<^verbatim>\<open>image.save\<close>.\<close>

definition save_options :: "string \<Rightarrow> int \<Rightarrow> options" where
  "save_options path quality =
     (let ext = lower (last (split (CHR ''.'') path))
      in if ext \<in> {''jpg'', ''jpeg''}
         then [(''quality'', IntV quality), (''optimize'', BoolV True), (''subsampling'', IntV 0)]
         else if ext = ''png'' then [(''compress_level'', IntV 1)]
         else [])"

subsection \<open>Adjustment operations\<close>

definition apply_gamma :: "lib \<Rightarrow> heap \<Rightarrow> ref \<Rightarrow> float \<Rightarrow> (ref \<times> heap) option" where
  "apply_gamma L h img gamma =
     do { (a, h1) \<leftarrow> np_array h img;
          (arr, h2) \<leftarrow> img_as_float h1 a;
          (corrected, h3) \<leftarrow> adjust_gamma L h2 arr gamma;
          (corrected', h4) \<leftarrow> np_clip h3 corrected 0 1;
          (u, h5) \<leftarrow> img_as_ubyte L h4 corrected';
          fromarray h5 u }"

definition apply_hist_eq :: "lib \<Rightarrow> heap \<Rightarrow> ref \<Rightarrow> (ref \<times> heap) option" where
  "apply_hist_eq L h img =
     do { (arr, h1) \<leftarrow> np_array h img;
          (ycrcb, h2) \<leftarrow> cvtColor L h1 arr COLOR_RGB2YCrCb;
          (y, h3) \<leftarrow> equalizeHist L h2 ycrcb;
          h4 \<leftarrow> set_channel0 h3 ycrcb y;
          (rgb, h5) \<leftarrow> cvtColor L h4 ycrcb COLOR_YCrCb2RGB;
          fromarray h5 rgb }"

definition adjust_brightness :: "lib \<Rightarrow> heap \<Rightarrow> ref \<Rightarrow> float \<Rightarrow> (ref \<times> heap) option" where
  "adjust_brightness L h img factor = enhance L Brightness h img factor"

definition adjust_contrast :: "lib \<Rightarrow> heap \<Rightarrow> ref \<Rightarrow> float \<Rightarrow> (ref \<times> heap) option" where
  "adjust_contrast L h img factor = enhance L Contrast h img factor"

definition adjust_sharpness :: "lib \<Rightarrow> heap \<Rightarrow> ref \<Rightarrow> float \<Rightarrow> (ref \<times> heap) option" where
  "adjust_sharpness L h img factor = enhance L Sharpness h img factor"

definition adjust_saturation :: "lib \<Rightarrow> heap \<Rightarrow> ref \<Rightarrow> float \<Rightarrow> (ref \<times> heap) option" where
  "adjust_saturation L h img factor = enhance L Color h img factor"

definition adjust_exposure :: "lib \<Rightarrow> heap \<Rightarrow> ref \<Rightarrow> float \<Rightarrow> (ref \<times> heap) option" where
  "adjust_exposure L h img gain =
     do { (a, h1) \<leftarrow> np_array h img;
          (arr, h2) \<leftarrow> img_as_float h1 a;
          (ex, h3) \<leftarrow> adjust_log h2 arr gain;
          (ex', h4) \<leftarrow> np_clip h3 ex 0 1;
          (u, h5) \<leftarrow> img_as_ubyte L h4 ex';
          fromarray h5 u }"

subsection \<open>The interactive controller\<close>

text \<open>
  Standard input is the list of the lines still to be read; what the program does to the
  outside is the list of its events, oldest first: a prompt written by \<^verbatim>\<open>input\<close>, a line
  written by \<^verbatim>\<open>print\<close>, an image handed to the viewer by \<^verbatim>\<open>show\<close>, an image written by
  \<^verbatim>\<open>image.save\<close> with its path and keyword arguments.
\<close>

datatype event =
    Prompt string
  | Print string
  | Show "u8 array3"
  | Save "u8 array3" string options

record state =
  store :: heap
  current :: ref
  modified :: bool
  stdin :: "string list"
  console :: "event list"

text \<open>The exceptions that leave \<^verbatim>\<open>main\<close>: \<^verbatim>\<open>input\<close> at end of input, \<^verbatim>\<open>float\<close> on a string
  that is no number, and an exception inside an operation, \<^verbatim>\<open>show\<close> or \<^verbatim>\<open>save_image\<close> (a
  reference that is no image, arrays or images whose shapes do not fit, a gamma that is
  refused, a path that cannot be saved to).\<close>

datatype exn = EOFError | ValueError | CallError

datatype flow = Continue state | Break state | Raised exn state

definition emit :: "event \<Rightarrow> state \<Rightarrow> state" where
  "emit e st = st\<lparr>console := console st @ [e]\<rparr>"

definition input_line :: "string \<Rightarrow> state \<Rightarrow> exn \<times> state + string \<times> state" where
  "input_line prompt st =
     (let st1 = emit (Prompt prompt) st
      in case stdin st1 of
           [] \<Rightarrow> Inl (EOFError, st1)
         | l # ls \<Rightarrow> Inr (l, st1\<lparr>stdin := ls\<rparr>))"

definition input_float :: "lib \<Rightarrow> string \<Rightarrow> state \<Rightarrow> exn \<times> state + float \<times> state" where
  "input_float L prompt st =
     (case input_line prompt st of
        Inl e \<Rightarrow> Inl e
      | Inr (s, st1) \<Rightarrow>
          (case lib_float L s of None \<Rightarrow> Inl (ValueError, st1) | Some x \<Rightarrow> Inr (x, st1)))"

text \<open>\<^verbatim>\<open>current = op(current, ...); modified = True\<close>\<close>

definition assign_current :: "(heap \<Rightarrow> ref \<Rightarrow> (ref \<times> heap) option) \<Rightarrow> state \<Rightarrow> flow" where
  "assign_current f st =
     (case f (store st) (current st) of
        None \<Rightarrow> Raised CallError st
      | Some (r, h) \<Rightarrow> Continue (st\<lparr>store := h, current := r, modified := True\<rparr>))"

definition with_float ::
  "lib \<Rightarrow> string \<Rightarrow> (float \<Rightarrow> heap \<Rightarrow> ref \<Rightarrow> (ref \<times> heap) option) \<Rightarrow> state \<Rightarrow> flow" where
  "with_float L prompt f st =
     (case input_float L prompt st of
        Inl (e, st1) \<Rightarrow> Raised e st1
      | Inr (x, st1) \<Rightarrow> assign_current (f x) st1)"

text \<open>\<^verbatim>\<open>current.show()\<close>\<close>

definition show_current :: "state \<Rightarrow> flow" where
  "show_current st =
     (case image_at (store st) (current st) of
        None \<Rightarrow> Raised CallError st
      | Some d \<Rightarrow> Continue (emit (Show d) st))"

text \<open>\<^verbatim>\<open>save_image(image, path, quality)\<close>: \<^verbatim>\<open>image.save(path, **options)\<close>, then the
  confirmation line. When \<^verbatim>\<open>image.save\<close> raises, nothing is written or printed and the
  exception leaves \<^verbatim>\<open>save_image\<close>.\<close>

definition save_image :: "lib \<Rightarrow> ref \<Rightarrow> string \<Rightarrow> int \<Rightarrow> state \<Rightarrow> flow" where
  "save_image L img path quality st =
     (case image_at (store st) img of
        None \<Rightarrow> Raised CallError st
      | Some d \<Rightarrow>
          if lib_save L d path (save_options path quality)
          then Continue (emit (Print (''Saved: '' @ path))
                          (emit (Save d path (save_options path quality)) st))
          else Raised CallError st)"

definition menu :: string where
  "menu = CHR 0x0A # ''1: Gamma '' @ CHR 0x0A # ''2: HistEq '' @ CHR 0x0A # ''3: Brightness ''
     @ CHR 0x0A # ''4: Contrast '' @ CHR 0x0A # ''5: Sharpness '' @ CHR 0x0A # ''6: Saturation ''
     @ CHR 0x0A # ''7: Exposure '' @ CHR 0x0A # ''8: Show '' @ CHR 0x0A # ''9: Save ''
     @ CHR 0x0A # ''0: Exit''"

text \<open>The \<^verbatim>\<open>elif\<close> chain of the loop body, lines 178 to 214. The default quality of
  \<^verbatim>\<open>save_image\<close> is 100.\<close>

definition dispatch :: "lib \<Rightarrow> string \<Rightarrow> state \<Rightarrow> flow" where
  "dispatch L choice st =
     (if choice = ''1'' then with_float L ''Gamma [1]: '' (\<lambda>g h r. apply_gamma L h r g) st
      else if choice = ''2'' then assign_current (apply_hist_eq L) st
      else if choice = ''3'' then
        with_float L ''Brightness [1]: '' (\<lambda>f h r. adjust_brightness L h r f) st
      else if choice = ''4'' then
        with_float L ''Contrast [1]: '' (\<lambda>f h r. adjust_contrast L h r f) st
      else if choice = ''5'' then
        with_float L ''Sharpness [1]: '' (\<lambda>f h r. adjust_sharpness L h r f) st
      else if choice = ''6'' then
        with_float L ''Saturation [1]: '' (\<lambda>f h r. adjust_saturation L h r f) st
      else if choice = ''7'' then
        with_float L ''Exposure [1]: '' (\<lambda>g h r. adjust_exposure L h r g) st
      else if choice = ''8'' then show_current st
      else if choice = ''9'' then
        (if modified st then
           (case input_line ''Save as: '' st of
              Inl (e, st1) \<Rightarrow> Raised e st1
            | Inr (path, st1) \<Rightarrow>
                (case save_image L (current st1) path 100 st1 of
                   Continue st2 \<Rightarrow> Continue (st2\<lparr>modified := False\<rparr>)
                 | other \<Rightarrow> other))
         else Continue (emit (Print ''Nothing to save.'') st))
      else Continue (emit (Print ''Invalid.'') st))"

text \<open>Lines 216 to 218, the end of every iteration that did not leave the loop.\<close>

definition confirm :: "state \<Rightarrow> flow" where
  "confirm st = (if modified st then show_current (emit (Print ''Applied.'') st) else Continue st)"

text \<open>One iteration of \<^verbatim>\<open>while True\<close>.\<close>

definition step :: "lib \<Rightarrow> state \<Rightarrow> flow" where
  "step L st =
     (case input_line ''Choose: '' (emit (Print menu) st) of
        Inl (e, st1) \<Rightarrow> Raised e st1
      | Inr (choice, st1) \<Rightarrow>
          if choice = ''0'' then Break st1
          else (case dispatch L choice st1 of
                  Continue st2 \<Rightarrow> confirm st2
                | other \<Rightarrow> other))"

text \<open>The loop reads at least one line in every iteration that continues, so it ends when
  standard input does, at the latest.\<close>

lemma input_line_Inr:
  "input_line p st = Inr (l, st1) \<Longrightarrow>
     stdin st = l # stdin st1 \<and> console st1 = console st @ [Prompt p] \<and>
     store st1 = store st \<and> current st1 = current st \<and> modified st1 = modified st"
  by (auto simp: input_line_def emit_def Let_def split: list.splits)

lemma input_float_Inr:
  "input_float L p st = Inr (x, st1) \<Longrightarrow>
     (\<exists>l. stdin st = l # stdin st1 \<and> lib_float L l = Some x) \<and>
     console st1 = console st @ [Prompt p] \<and>
     store st1 = store st \<and> current st1 = current st \<and> modified st1 = modified st"
  by (auto simp: input_float_def split: sum.splits option.splits dest!: input_line_Inr)

lemma assign_current_Continue:
  "assign_current f st = Continue st' \<Longrightarrow>
     stdin st' = stdin st \<and> console st' = console st \<and> modified st'"
  by (auto simp: assign_current_def split: option.splits)

lemma with_float_Continue:
  "with_float L p f st = Continue st' \<Longrightarrow>
     length (stdin st') < length (stdin st) \<and> modified st'"
  by (auto simp: with_float_def split: sum.splits
      dest!: input_float_Inr assign_current_Continue)

lemma show_current_Continue:
  "show_current st = Continue st' \<Longrightarrow>
     \<exists>d. image_at (store st) (current st) = Some d \<and> st' = emit (Show d) st"
  by (auto simp: show_current_def split: option.splits)

lemma save_image_Continue:
  "save_image L r p q st = Continue st' \<Longrightarrow>
     \<exists>d. image_at (store st) r = Some d \<and> lib_save L d p (save_options p q) \<and>
       st' = emit (Print (''Saved: '' @ p)) (emit (Save d p (save_options p q)) st)"
  by (auto simp: save_image_def split: option.splits if_splits)

lemma dispatch_stdin:
  "dispatch L c st = Continue st' \<Longrightarrow> length (stdin st') \<le> length (stdin st)"
  by (auto simp: dispatch_def emit_def split: if_splits sum.splits flow.splits
      dest!: with_float_Continue assign_current_Continue show_current_Continue
        input_line_Inr save_image_Continue)

lemma confirm_stdin: "confirm st = Continue st' \<Longrightarrow> stdin st' = stdin st"
  by (auto simp: confirm_def emit_def split: if_splits dest!: show_current_Continue)

lemma step_consumes:
  "step L st = Continue st' \<Longrightarrow> length (stdin st') < length (stdin st)"
  by (auto simp: step_def emit_def split: sum.splits if_splits flow.splits
      dest!: input_line_Inr dispatch_stdin confirm_stdin)

text \<open>How \<^verbatim>\<open>main\<close> ends: it returns, or an exception leaves it. The interpreter exits
  with status 0 in the first case and 1 in the second.\<close>

datatype outcome = Returned | Uncaught exn

definition exit_code :: "outcome \<Rightarrow> int" where
  "exit_code oc = (case oc of Returned \<Rightarrow> 0 | Uncaught e \<Rightarrow> 1)"

function loop :: "lib \<Rightarrow> state \<Rightarrow> state \<times> outcome" where
  "loop L st =
     (case step L st of
        Continue st' \<Rightarrow> loop L st'
      | Break st' \<Rightarrow> (st', Returned)
      | Raised e st' \<Rightarrow> (st', Uncaught e))"
  by pat_completeness auto
termination
  by (relation "measure (\<lambda>(L, st). length (stdin st))") (auto dest: step_consumes)

text \<open>\<^verbatim>\<open>img.copy()\<close>\<close>

definition copy :: "heap \<Rightarrow> ref \<Rightarrow> (ref \<times> heap) option" where
  "copy h img = do { d \<leftarrow> image_at h img; Some (alloc h (Image d)) }"

text \<open>A run of \<^verbatim>\<open>main\<close> on the lines of standard input: the events, how it ended, and the
  lines left unread.\<close>

record run =
  events :: "event list"
  status :: outcome
  unread :: "string list"

definition main :: "lib \<Rightarrow> string list \<Rightarrow> run" where
  "main L inp =
     (case inp of
        [] \<Rightarrow> \<lparr>events = [Prompt ''Path: ''], status = Uncaught EOFError, unread = []\<rparr>
      | path # rest \<Rightarrow>
          (case load_image L [] path of
             Inl e \<Rightarrow>
               \<lparr>events = [Prompt ''Path: '', Print (''Error loading image: '' @ e)],
                status = Returned, unread = rest\<rparr>
           | Inr (img, h) \<Rightarrow>
               (case copy h img of
                  None \<Rightarrow>
                    \<lparr>events = [Prompt ''Path: ''], status = Uncaught CallError, unread = rest\<rparr>
                | Some (cur, h1) \<Rightarrow>
                    (let (st, oc) =
                       loop L \<lparr>store = h1, current = cur, modified = False, stdin = rest,
                               console = [Prompt ''Path: '']\<rparr>
                     in \<lparr>events = console st, status = oc, unread = stdin st\<rparr>))))"

subsection \<open>Predicates of the statements and a concrete library\<close>




text \<open>The contract of OpenCV that the size claim of histogram equalisation rests on: colour
  conversion and equalisation return arrays of the shape of their argument.\<close>

definition keeps_shape :: "lib \<Rightarrow> bool" where
  "keeps_shape L \<longleftrightarrow>
     (\<forall>a c. shape3 (lib_cvtColor L a c) = shape3 a) \<and>
     (\<forall>p. shape2 (lib_equalizeHist L p) = shape2 p)"

text \<open>The exposure curve as the spec's table writes it,
  \<^verbatim>\<open>out = log(1 + gain * in) / log(1 + gain)\<close>, to compare the program's curve with.\<close>

definition spec_log_curve :: "real \<Rightarrow> real \<Rightarrow> real" where
  "spec_log_curve gain v = ln (1 + gain * v) / ln (1 + gain)"

text \<open>A small library to run the model on: one file \<^verbatim>\<open>in.png\<close> of one pixel; paths with one
  of four extensions can be saved to; three numbers parse; the gamma curve is the identity
  and refuses a negative gamma; floats become bytes by rounding; colour conversion and
  equalisation are identities; the reference image is black.\<close>

definition demo_lib :: lib where
  "demo_lib =
     \<lparr>lib_open = (\<lambda>p. if p = ''in.png'' then Inr [[[10, 20, 30]]] else Inl ''cannot open''),
      lib_save = (\<lambda>d p opts. CHR ''.'' \<in> set p \<and>
        lower (last (split (CHR ''.'') p)) \<in> {''jpg'', ''jpeg'', ''png'', ''bmp''}),
      lib_float = (\<lambda>s. if s = ''1'' then Some (Finite 1) else if s = ''2'' then Some (Finite 2)
        else if s = ''nan'' then Some NaN else None),
      lib_adjust_gamma = (\<lambda>a g. if negative g then None else Some a),
      lib_img_as_ubyte =
        map (map (map (\<lambda>v. case v of Finite r \<Rightarrow> of_int (round (r * 255)) | _ \<Rightarrow> 0))),
      lib_cvtColor = (\<lambda>a c. a),
      lib_equalizeHist = (\<lambda>p. p),
      lib_degenerate = (\<lambda>k. map (map (map (\<lambda>v. 0)))),
      lib_nan_byte = 0\<rparr>"

definition demo_store :: heap where
  "demo_store = [Image [[[10, 20, 30]]]]"


section \<open>Properties\<close>

subsection \<open>What each operation returns\<close>

lemmas at_defs = image_at_def u8_at_def plane_at_def float_at_def

lemmas call_defs = np_array_def fromarray_def img_as_float_def img_as_ubyte_def
  adjust_gamma_def adjust_log_def np_clip_def cvtColor_def equalizeHist_def alloc_def

lemma some_image: "image_at h img = None \<or> (\<exists>d. image_at h img = Some d)"
  by auto


lemma unit_of_byte_not_negative: "\<not> negative (unit_of_byte v)"
  by (simp add: negative_def unit_of_byte_def del: of_nat_unat)

lemma normalised_not_negative:
  "\<not> list_ex (list_ex (list_ex negative)) (map (map (map unit_of_byte)) d)"
  by (simp add: list_ex_iff unit_of_byte_not_negative)


lemma apply_gamma_None: "image_at h img = None \<Longrightarrow> apply_gamma L h img g = None"
  by (simp add: apply_gamma_def np_array_def)

lemma apply_gamma_Some:
  "image_at h img = Some d \<Longrightarrow>
   apply_gamma L h img g =
     (let f0 = map (map (map unit_of_byte)) d
      in case lib_adjust_gamma L f0 g of
           None \<Rightarrow> None
         | Some f1 \<Rightarrow>
             (let f2 = map (map (map (clip 0 1))) f1; u = lib_img_as_ubyte L f2
              in Some (length h + 5,
                   h @ [U8Array d, FloatArray f0, FloatArray f1, FloatArray f2, U8Array u,
                        Image u])))"
  by (simp add: apply_gamma_def call_defs at_defs nth_append Let_def split: option.splits)

lemma adjust_exposure_None: "image_at h img = None \<Longrightarrow> adjust_exposure L h img g = None"
  by (simp add: adjust_exposure_def np_array_def)

lemma adjust_exposure_Some:
  "image_at h img = Some d \<Longrightarrow>
   adjust_exposure L h img g =
     (let f0 = map (map (map unit_of_byte)) d; f1 = map (map (map (log_curve g))) f0;
          f2 = map (map (map (clip 0 1))) f1; u = lib_img_as_ubyte L f2
      in Some (length h + 5,
           h @ [U8Array d, FloatArray f0, FloatArray f1, FloatArray f2, U8Array u, Image u]))"
  using normalised_not_negative [of d]
  by (simp add: adjust_exposure_def call_defs at_defs nth_append Let_def comp_assoc)

lemma enhance_None: "image_at h img = None \<Longrightarrow> enhance L k h img f = None"
  by (simp add: enhance_def)

lemma enhance_Some:
  "image_at h img = Some d \<Longrightarrow>
   enhance L k h img f =
     (let g = lib_degenerate L k d
      in if shape3 g = shape3 d
         then Some (length h + 1, h @ [Image g, Image (map2 (map2 (map2 (blend_px L f))) g d)])
         else None)"
  by (auto simp add: enhance_def blend_def alloc_def at_defs nth_append Let_def)

lemma apply_hist_eq_None: "image_at h img = None \<Longrightarrow> apply_hist_eq L h img = None"
  by (simp add: apply_hist_eq_def np_array_def)

lemma apply_hist_eq_Some:
  "image_at h img = Some d \<Longrightarrow>
   apply_hist_eq L h img =
     (let y = lib_cvtColor L d COLOR_RGB2YCrCb
      in case channel0 y of
           None \<Rightarrow> None
         | Some p \<Rightarrow>
             (case assign_channel0 y (lib_equalizeHist L p) of
                None \<Rightarrow> None
              | Some y' \<Rightarrow>
                  Some (length h + 4,
                    h @ [U8Array d, U8Array y', U8Plane (lib_equalizeHist L p),
                         U8Array (lib_cvtColor L y' COLOR_YCrCb2RGB),
                         Image (lib_cvtColor L y' COLOR_YCrCb2RGB)])))"
  by (simp add: apply_hist_eq_def call_defs set_channel0_def at_defs nth_append Let_def
      split: option.splits)

text \<open>Results on the demo store, used by the examples below.\<close>

lemma demo_image: "image_at demo_store 0 = Some [[[10, 20, 30]]]"
  by (simp add: demo_store_def image_at_def)

lemma demo_gamma:
  "apply_gamma demo_lib demo_store 0 (Finite 2) =
     Some (6, [Image [[[10, 20, 30]]], U8Array [[[10, 20, 30]]],
               FloatArray [[[Finite (10 / 255), Finite (20 / 255), Finite (30 / 255)]]],
               FloatArray [[[Finite (10 / 255), Finite (20 / 255), Finite (30 / 255)]]],
               FloatArray [[[Finite (10 / 255), Finite (20 / 255), Finite (30 / 255)]]],
               U8Array [[[10, 20, 30]]], Image [[[10, 20, 30]]]])"
  unfolding apply_gamma_Some [OF demo_image]
  by (simp add: demo_store_def demo_lib_def clip_def Let_def unit_of_byte_def negative_def)


lemma demo_hist_eq:
  "apply_hist_eq demo_lib demo_store 0 =
     Some (5, [Image [[[10, 20, 30]]], U8Array [[[10, 20, 30]]], U8Array [[[10, 20, 30]]],
               U8Plane [[10]], U8Array [[[10, 20, 30]]], Image [[[10, 20, 30]]]])"
  unfolding apply_hist_eq_Some [OF demo_image]
  by (simp add: demo_store_def demo_lib_def channel0_def assign_channel0_def shape2_def
      Let_def)




subsection \<open>Frames of the operations\<close>

lemma apply_gamma_frame:
  assumes "apply_gamma L h img x = Some (r, h')"
  shows "prefix h h' \<and> length h \<le> r \<and> r < length h' \<and>
     (\<exists>d. image_at h img = Some d \<and> image_at h' img = Some d) \<and>
     (\<exists>d'. image_at h' r = Some d')"
proof -
  obtain d where d: "image_at h img = Some d"
    using assms some_image [of h img] by (auto simp: apply_gamma_None)
  then have i: "img < length h"
    by (simp add: image_at_def split: if_splits)
  show ?thesis
    using assms d i unfolding apply_gamma_Some [OF d] Let_def
    by (auto simp: image_at_def nth_append split: option.splits)
qed

lemma adjust_exposure_frame:
  assumes "adjust_exposure L h img x = Some (r, h')"
  shows "prefix h h' \<and> length h \<le> r \<and> r < length h' \<and>
     (\<exists>d. image_at h img = Some d \<and> image_at h' img = Some d) \<and>
     (\<exists>d'. image_at h' r = Some d')"
proof -
  obtain d where d: "image_at h img = Some d"
    using assms some_image [of h img] by (auto simp: adjust_exposure_None)
  then have i: "img < length h"
    by (simp add: image_at_def split: if_splits)
  show ?thesis
    using assms d i unfolding adjust_exposure_Some [OF d] Let_def
    by (auto simp: image_at_def nth_append)
qed

lemma enhance_frame:
  assumes "enhance L k h img x = Some (r, h')"
  shows "prefix h h' \<and> length h \<le> r \<and> r < length h' \<and>
     (\<exists>d. image_at h img = Some d \<and> image_at h' img = Some d) \<and>
     (\<exists>d'. image_at h' r = Some d')"
proof -
  obtain d where d: "image_at h img = Some d"
    using assms some_image [of h img] by (auto simp: enhance_None)
  then have i: "img < length h"
    by (simp add: image_at_def split: if_splits)
  show ?thesis
    using assms d i unfolding enhance_Some [OF d] Let_def
    by (auto simp: image_at_def nth_append split: if_splits)
qed

lemma apply_hist_eq_frame:
  assumes "apply_hist_eq L h img = Some (r, h')"
  shows "prefix h h' \<and> length h \<le> r \<and> r < length h' \<and>
     (\<exists>d. image_at h img = Some d \<and> image_at h' img = Some d) \<and>
     (\<exists>d'. image_at h' r = Some d')"
proof -
  obtain d where d: "image_at h img = Some d"
    using assms some_image [of h img] by (auto simp: apply_hist_eq_None)
  then have i: "img < length h"
    by (simp add: image_at_def split: if_splits)
  show ?thesis
    using assms d i unfolding apply_hist_eq_Some [OF d] Let_def
    by (auto simp: image_at_def nth_append split: option.splits)
qed



subsection \<open>Writing channel 0, blending with factor one\<close>

lemma assign_row:
  "length q = length row \<Longrightarrow> \<forall>px \<in> set row. px \<noteq> [] \<Longrightarrow>
     map hd (map2 (\<lambda>v px. v # tl px) q row) = q \<and>
     map tl (map2 (\<lambda>v px. v # tl px) q row) = map tl row \<and>
     map length (map2 (\<lambda>v px. v # tl px) q row) = map length row"
  by (induction q row rule: list_induct2) auto

lemma assign_rows:
  "map length p = map length a \<Longrightarrow> \<forall>row \<in> set a. \<forall>px \<in> set row. px \<noteq> [] \<Longrightarrow>
     map (map hd) (map2 (map2 (\<lambda>v px. v # tl px)) p a) = p \<and>
     map (map tl) (map2 (map2 (\<lambda>v px. v # tl px)) p a) = map (map tl) a \<and>
     map (map length) (map2 (map2 (\<lambda>v px. v # tl px)) p a) = map (map length) a"
proof (induction p arbitrary: a)
  case Nil
  then show ?case by simp
next
  case (Cons q p)
  then obtain row a' where a: "a = row # a'" by (cases a) auto
  with Cons.prems have "length q = length row" "\<forall>px \<in> set row. px \<noteq> []"
    "map length p = map length a'" "\<forall>row \<in> set a'. \<forall>px \<in> set row. px \<noteq> []"
    by auto
  then show ?case
    using assign_row [of q row] Cons.IH [of a'] a by simp
qed

lemma assign_channel0_Some:
  assumes "assign_channel0 a p = Some a'"
  shows "map (map hd) a' = p \<and> map (map tl) a' = map (map tl) a \<and> shape3 a' = shape3 a"
  using assms assign_rows [of p a]
  by (auto simp: assign_channel0_def shape2_def shape3_def split: if_splits)

lemma rgb_pixels_nonempty:
  assumes "shape3 y = shape3 d" "list_all (list_all (\<lambda>px. length px = 3)) d"
  shows "\<forall>row \<in> set y. \<forall>px \<in> set row. px \<noteq> []"
proof -
  have "list_all (list_all (\<lambda>n. n = 3)) (shape3 d)"
    using assms(2) by (simp add: shape3_def list_all_iff)
  then have "list_all (list_all (\<lambda>n. n = 3)) (shape3 y)"
    using assms(1) by simp
  then show ?thesis
    by (fastforce simp: shape3_def list_all_iff)
qed


lemma blend_px_one: "blend_px L (Finite 1) a b = b"
proof -
  define n where "n = unat b"
  have b: "b = of_nat n" by (simp add: n_def)
  have "unat b < 2 ^ LENGTH(8)" by (rule unsigned_less)
  then have lt: "n < 256" by (simp add: n_def)
  have t: "fadd (Finite (real (unat a))) (fmul (Finite 1) (Finite (real (unat b) - real (unat a))))
      = Finite (real n)"
    by (simp add: n_def)
  have r: "blend_px L (Finite 1) a b =
      (if real n \<le> 0 then 0 else if real n \<ge> 255 then 255 else of_int \<lfloor>real n\<rfloor>)"
    by (simp only: blend_px_def cut_byte_def t float.case)
  have "blend_px L (Finite 1) a b = of_nat n"
  proof (cases "n = 0 \<or> n = 255")
    case True
    then show ?thesis using r by auto
  next
    case False
    with lt have "\<not> real n \<le> 0" "\<not> real n \<ge> 255" by auto
    then show ?thesis using r by simp
  qed
  then show ?thesis using b by simp
qed

lemma blend_row_one: "length a = length b \<Longrightarrow> map2 (blend_px L (Finite 1)) a b = b"
  by (induction a b rule: list_induct2) (auto simp: blend_px_one)

lemma blend_rows_one:
  "map length r = map length s \<Longrightarrow> map2 (map2 (blend_px L (Finite 1))) r s = s"
proof (induction r arbitrary: s)
  case Nil
  then show ?case by simp
next
  case (Cons a r)
  then obtain b s' where "s = b # s'" by (cases s) auto
  with Cons show ?case by (simp add: blend_row_one)
qed

lemma blend_image_one:
  "shape3 g = shape3 d \<Longrightarrow> map2 (map2 (map2 (blend_px L (Finite 1)))) g d = d"
proof (induction g arbitrary: d)
  case Nil
  then show ?case by (simp add: shape3_def)
next
  case (Cons r g)
  then obtain s d' where "d = s # d'" by (cases d) (auto simp: shape3_def)
  with Cons show ?case by (simp add: shape3_def blend_rows_one)
qed

subsection \<open>The extension of a path\<close>














subsection \<open>One iteration of the loop\<close>











section \<open>The claims\<close>




text \<open>
  Claim C2: the confirmation and the automatic display follow an iteration only if the flag
  became true in that iteration; showing the image while a modification is pending prints no
  confirmation. The program tests the flag itself: after brightness 2, choice 8 shows the
  image, prints \<^verbatim>\<open>Applied.\<close> and shows the image again.
\<close>

theorem applied_after_show:
  "main demo_lib [''in.png'', ''3'', ''2'', ''8'', ''0''] =
     \<lparr>events =
        [Prompt ''Path: '', Print menu, Prompt ''Choose: '',
         Prompt ''Brightness [1]: '', Print ''Applied.'',
         Show [[[20, 40, 60]]], Print menu, Prompt ''Choose: '',
         Show [[[20, 40, 60]]], Print ''Applied.'', Show [[[20, 40, 60]]],
         Print menu, Prompt ''Choose: ''],
        status = Returned, unread = []\<rparr>"
  apply (simp add: main_def load_image_def demo_lib_def copy_def alloc_def image_at_def)
  apply (simp add: step_def dispatch_def input_line_def emit_def with_float_def
      input_float_def assign_current_def adjust_brightness_def enhance_def blend_def alloc_def
      image_at_def shape3_def blend_px_def cut_byte_def confirm_def show_current_def
      nth_append)
  done

text \<open>The same for every state with a pending modification: choice 8 shows the image,
  confirms and shows it again.\<close>

lemma show_while_pending:
  assumes "modified st" and "stdin st = ''8'' # rest"
    and "image_at (store st) (current st) = Some d"
  shows "step L st =
     Continue \<lparr>store = store st, current = current st, modified = True, stdin = rest,
       console = console st @
         [Print menu, Prompt ''Choose: '', Show d, Print ''Applied.'', Show d]\<rparr>"
  using assms
  by (simp add: step_def dispatch_def input_line_def emit_def confirm_def show_current_def)

text \<open>
  Claim C3, as stated: exposure computes \<^verbatim>\<open>out = log(1 + gain * in) / log(1 + gain)\<close> on the
  normalised values. It fails at gain 0.5 on a white pixel: the normalised value is 1, the
  program's curve gives 0.5 (which the clip leaves, and which becomes the byte 128), the
  formula of the claim gives 1.
\<close>

theorem exposure_differs_from_spec_curve:
  "adjust_exposure demo_lib [Image [[[255, 255, 255]]]] 0 (Finite (1 / 2)) =
     Some (6, [Image [[[255, 255, 255]]], U8Array [[[255, 255, 255]]],
               FloatArray [[[Finite 1, Finite 1, Finite 1]]],
               FloatArray [[[Finite (1 / 2), Finite (1 / 2), Finite (1 / 2)]]],
               FloatArray [[[Finite (1 / 2), Finite (1 / 2), Finite (1 / 2)]]],
               U8Array [[[128, 128, 128]]], Image [[[128, 128, 128]]]]) \<and>
   spec_log_curve (1 / 2) 1 = 1 \<and>
   log_curve (Finite (1 / 2)) (Finite 1) \<noteq> Finite (spec_log_curve (1 / 2) 1)"
proof -
  have i: "image_at [Image [[[255, 255, 255]]]] 0 = Some [[[255, 255, 255]]]"
    by (simp add: image_at_def)
  have l: "log_curve (Finite (1 / 2)) (Finite 1) = Finite (1 / 2)"
    by (simp add: log_curve_def log2_1p_def)
  have u: "unit_of_byte 255 = Finite 1"
    by (simp add: unit_of_byte_def)
  have s: "spec_log_curve (1 / 2) 1 = 1"
    by (simp add: spec_log_curve_def)
  have "adjust_exposure demo_lib [Image [[[255, 255, 255]]]] 0 (Finite (1 / 2)) =
     Some (6, [Image [[[255, 255, 255]]], U8Array [[[255, 255, 255]]],
               FloatArray [[[Finite 1, Finite 1, Finite 1]]],
               FloatArray [[[Finite (1 / 2), Finite (1 / 2), Finite (1 / 2)]]],
               FloatArray [[[Finite (1 / 2), Finite (1 / 2), Finite (1 / 2)]]],
               U8Array [[[128, 128, 128]]], Image [[[128, 128, 128]]]])"
    unfolding adjust_exposure_Some [OF i]
    by (simp add: Let_def u l clip_def demo_lib_def round_def)
  with s l show ?thesis by simp
qed

text \<open>
  Claim C3, amended: for every image and gain, exposure converts the pixels to the
  normalised values \<open>v / 255\<close>, applies the curve of scikit-image's \<^verbatim>\<open>adjust_log\<close> to each
  of them and clips the result to the unit interval before the conversion to 8 bits. For a
  finite gain the curve is \<^verbatim>\<open>out = gain * log2(1 + in)\<close>; it is monotonic in \<^verbatim>\<open>in\<close>
  when the gain is not negative, and at gain 1 it is the formula of the claim.
\<close>

theorem exposure_log_curve:
  "(image_at h img = Some d \<longrightarrow>
      adjust_exposure L h img gain =
        Some (length h + 5,
          h @ [U8Array d, FloatArray (map (map (map unit_of_byte)) d),
               FloatArray (map (map (map (log_curve gain))) (map (map (map unit_of_byte)) d)),
               FloatArray (map (map (map (clip 0 1)))
                 (map (map (map (log_curve gain))) (map (map (map unit_of_byte)) d))),
               U8Array (lib_img_as_ubyte L (map (map (map (clip 0 1)))
                 (map (map (map (log_curve gain))) (map (map (map unit_of_byte)) d)))),
               Image (lib_img_as_ubyte L (map (map (map (clip 0 1)))
                 (map (map (map (log_curve gain))) (map (map (map unit_of_byte)) d))))])) \<and>
   log_curve (Finite g) (Finite v) = Finite (g * log 2 (1 + v)) \<and>
   clip 0 1 (Finite y) = Finite (min 1 (max y 0)) \<and>
   (0 \<le> g \<and> 0 \<le> u \<and> u \<le> v \<longrightarrow> g * log 2 (1 + u) \<le> g * log 2 (1 + v)) \<and>
   (0 \<le> v \<longrightarrow> log_curve (Finite 1) (Finite v) = Finite (spec_log_curve 1 v))"
proof (intro conjI impI)
  assume "image_at h img = Some d"
  then show "adjust_exposure L h img gain =
        Some (length h + 5,
          h @ [U8Array d, FloatArray (map (map (map unit_of_byte)) d),
               FloatArray (map (map (map (log_curve gain))) (map (map (map unit_of_byte)) d)),
               FloatArray (map (map (map (clip 0 1)))
                 (map (map (map (log_curve gain))) (map (map (map unit_of_byte)) d))),
               U8Array (lib_img_as_ubyte L (map (map (map (clip 0 1)))
                 (map (map (map (log_curve gain))) (map (map (map unit_of_byte)) d)))),
               Image (lib_img_as_ubyte L (map (map (map (clip 0 1)))
                 (map (map (map (log_curve gain))) (map (map (map unit_of_byte)) d))))])"
    by (simp only: adjust_exposure_Some Let_def)
next
  show "log_curve (Finite g) (Finite v) = Finite (g * log 2 (1 + v))"
    by (simp add: log_curve_def log2_1p_def mult.commute)
next
  show "clip 0 1 (Finite y) = Finite (min 1 (max y 0))"
    by (simp add: clip_def)
next
  assume a: "0 \<le> g \<and> 0 \<le> u \<and> u \<le> v"
  then have "log 2 (1 + u) \<le> log 2 (1 + v)" by simp
  with a show "g * log 2 (1 + u) \<le> g * log 2 (1 + v)"
    by (simp add: mult_left_mono)
next
  assume "0 \<le> v"
  then show "log_curve (Finite 1) (Finite v) = Finite (spec_log_curve 1 v)"
    by (simp add: log_curve_def log2_1p_def spec_log_curve_def log_def)
qed

theorem exposure_log_curve_witness:
  "image_at [Image [[[255, 255, 255]]]] 0 = Some [[[255, 255, 255]]] \<and>
   adjust_exposure demo_lib [Image [[[255, 255, 255]]]] 0 (Finite 1) =
     Some (length [Image [[[255, 255, 255]]]] + 5,
       [Image [[[255, 255, 255]]]] @
         [U8Array [[[255, 255, 255]]],
          FloatArray (map (map (map unit_of_byte)) [[[255, 255, 255]]]),
          FloatArray (map (map (map (log_curve (Finite 1))))
            (map (map (map unit_of_byte)) [[[255, 255, 255]]])),
          FloatArray (map (map (map (clip 0 1))) (map (map (map (log_curve (Finite 1))))
            (map (map (map unit_of_byte)) [[[255, 255, 255]]]))),
          U8Array (lib_img_as_ubyte demo_lib (map (map (map (clip 0 1)))
            (map (map (map (log_curve (Finite 1))))
              (map (map (map unit_of_byte)) [[[255, 255, 255]]])))),
          Image (lib_img_as_ubyte demo_lib (map (map (map (clip 0 1)))
            (map (map (map (log_curve (Finite 1))))
              (map (map (map unit_of_byte)) [[[255, 255, 255]]]))))]) \<and>
   (0::real) \<le> 2 \<and> (0::real) \<le> 1 / 4 \<and> (1::real) / 4 \<le> 1 / 2 \<and>
   (2::real) * log 2 (1 + 1 / 4) \<le> 2 * log 2 (1 + 1 / 2) \<and>
   log_curve (Finite 1) (Finite (1 / 2)) = Finite (spec_log_curve 1 (1 / 2))"
proof -
  have i: "image_at [Image [[[255, 255, 255]]]] 0 = Some [[[255, 255, 255]]]"
    by (simp add: image_at_def)
  note t = exposure_log_curve [where h = "[Image [[[255, 255, 255]]]]" and img = 0
      and d = "[[[255, 255, 255]]]" and L = demo_lib and gain = "Finite 1" and g = 2
      and u = "1 / 4" and v = "1 / 2"]
  have m: "(0::real) \<le> 2 \<and> (0::real) \<le> 1 / 4 \<and> (1::real) / 4 \<le> 1 / 2" by simp
  have p: "(0::real) \<le> 1 / 2" by simp
  from i m p t show ?thesis by blast
qed

text \<open>
  Claim C4, as stated: on choice 9 with the flag set the controller saves and clears the
  flag. It fails for a path that \<^verbatim>\<open>image.save\<close> refuses: with \<^verbatim>\<open>out.xyz\<close> the exception
  leaves \<^verbatim>\<open>main\<close> after the prompt, nothing is saved or confirmed, and the flag is still set.
\<close>

theorem save_refused_keeps_flag:
  "step demo_lib
     \<lparr>store = demo_store, current = 0, modified = True, stdin = [''9'', ''out.xyz'', ''0''],
      console = []\<rparr> =
     Raised CallError
       \<lparr>store = demo_store, current = 0, modified = True, stdin = [''0''],
        console = [Print menu, Prompt ''Choose: '', Prompt ''Save as: '']\<rparr> \<and>
   main demo_lib [''in.png'', ''3'', ''2'', ''9'', ''out.xyz'', ''0''] =
     \<lparr>events =
        [Prompt ''Path: '', Print menu, Prompt ''Choose: '', Prompt ''Brightness [1]: '',
         Print ''Applied.'', Show [[[20, 40, 60]]], Print menu, Prompt ''Choose: '',
         Prompt ''Save as: ''],
      status = Uncaught CallError, unread = [''0'']\<rparr>"
proof -
  have s: "\<not> lib_save demo_lib d ''out.xyz'' opts" for d opts
    by (simp add: demo_lib_def lower_def lower_char_def)
  have o: "lib_open demo_lib ''in.png'' = Inr [[[10, 20, 30]]]"
    by (simp add: demo_lib_def)
  have f: "lib_float demo_lib ''2'' = Some (Finite 2)"
    by (simp add: demo_lib_def)
  have b: "adjust_brightness demo_lib [Image [[[10, 20, 30]]], Image [[[10, 20, 30]]]] (Suc 0)
      (Finite 2) =
      Some (3, [Image [[[10, 20, 30]]], Image [[[10, 20, 30]]], Image [[[0, 0, 0]]],
                Image [[[20, 40, 60]]]])"
    by (simp add: adjust_brightness_def enhance_def blend_def alloc_def image_at_def
        demo_lib_def shape3_def blend_px_def cut_byte_def nth_append)
  have 1: "step demo_lib
     \<lparr>store = demo_store, current = 0, modified = True, stdin = [''9'', ''out.xyz'', ''0''],
      console = []\<rparr> =
     Raised CallError
       \<lparr>store = demo_store, current = 0, modified = True, stdin = [''0''],
        console = [Print menu, Prompt ''Choose: '', Prompt ''Save as: '']\<rparr>"
    by (simp add: step_def dispatch_def input_line_def emit_def save_image_def demo_image s)
  have 2: "main demo_lib [''in.png'', ''3'', ''2'', ''9'', ''out.xyz'', ''0''] =
     \<lparr>events =
        [Prompt ''Path: '', Print menu, Prompt ''Choose: '', Prompt ''Brightness [1]: '',
         Print ''Applied.'', Show [[[20, 40, 60]]], Print menu, Prompt ''Choose: '',
         Prompt ''Save as: ''],
      status = Uncaught CallError, unread = [''0'']\<rparr>"
    by (simp add: main_def load_image_def o copy_def alloc_def image_at_def step_def
        dispatch_def input_line_def emit_def with_float_def input_float_def f
        assign_current_def b confirm_def show_current_def save_image_def s nth_append)
  from 1 2 show ?thesis by simp
qed

text \<open>
  Claim C4, amended: on choice 9 with the flag set, the controller prompts for a path and
  calls \<^verbatim>\<open>image.save\<close> on the current image with the options of quality 100; when the call
  returns it prints the confirmation and clears the flag; when the call raises, the
  exception leaves the loop with nothing saved or confirmed and the flag still set. With the
  flag clear the controller prints the notice and saves nothing; so does a session whose
  first choice is 9.
\<close>

theorem save_choice:
  "(modified st \<and> stdin st = ''9'' # path # rest \<and> image_at (store st) (current st) = Some d \<and>
      lib_save L d path (save_options path 100) \<longrightarrow>
      step L st =
        Continue \<lparr>store = store st, current = current st, modified = False, stdin = rest,
          console = console st @
            [Print menu, Prompt ''Choose: '', Prompt ''Save as: '',
             Save d path (save_options path 100), Print (''Saved: '' @ path)]\<rparr>) \<and>
   (modified st \<and> stdin st = ''9'' # path # rest \<and> image_at (store st) (current st) = Some d \<and>
      \<not> lib_save L d path (save_options path 100) \<longrightarrow>
      step L st =
        Raised CallError
          \<lparr>store = store st, current = current st, modified = True, stdin = rest,
           console = console st @
             [Print menu, Prompt ''Choose: '', Prompt ''Save as: '']\<rparr>) \<and>
   (\<not> modified st \<and> stdin st = ''9'' # rest \<longrightarrow>
      step L st =
        Continue \<lparr>store = store st, current = current st, modified = False, stdin = rest,
          console = console st @
            [Print menu, Prompt ''Choose: '', Print ''Nothing to save.'']\<rparr>) \<and>
   (lib_open L path = Inr d \<longrightarrow>
      main L (path # ''9'' # ''0'' # rest) =
        \<lparr>events = [Prompt ''Path: '', Print menu, Prompt ''Choose: '', Print ''Nothing to save.'',
                   Print menu, Prompt ''Choose: ''],
         status = Returned, unread = rest\<rparr>)"
  by (simp add: step_def dispatch_def input_line_def emit_def save_image_def confirm_def
        main_def load_image_def copy_def alloc_def image_at_def)

theorem save_choice_witness:
  "lib_save demo_lib [[[10, 20, 30]]] ''out.JPG'' (save_options ''out.JPG'' 100) \<and>
   step demo_lib
     \<lparr>store = demo_store, current = 0, modified = True, stdin = [''9'', ''out.JPG'', ''0''],
      console = []\<rparr> =
     Continue \<lparr>store = demo_store, current = 0, modified = False, stdin = [''0''],
       console =
         [Print menu, Prompt ''Choose: '', Prompt ''Save as: '',
          Save [[[10, 20, 30]]] ''out.JPG'' (save_options ''out.JPG'' 100),
          Print ''Saved: out.JPG'']\<rparr> \<and>
   \<not> lib_save demo_lib [[[10, 20, 30]]] ''out.xyz'' (save_options ''out.xyz'' 100) \<and>
   step demo_lib
     \<lparr>store = demo_store, current = 0, modified = True, stdin = [''9'', ''out.xyz'', ''0''],
      console = []\<rparr> =
     Raised CallError
       \<lparr>store = demo_store, current = 0, modified = True, stdin = [''0''],
        console = [Print menu, Prompt ''Choose: '', Prompt ''Save as: '']\<rparr> \<and>
   step demo_lib
     \<lparr>store = demo_store, current = 0, modified = False, stdin = [''9'', ''0''],
      console = []\<rparr> =
     Continue \<lparr>store = demo_store, current = 0, modified = False, stdin = [''0''],
       console = [Print menu, Prompt ''Choose: '', Print ''Nothing to save.'']\<rparr> \<and>
   main demo_lib [''in.png'', ''9'', ''0''] =
     \<lparr>events = [Prompt ''Path: '', Print menu, Prompt ''Choose: '', Print ''Nothing to save.'',
                Print menu, Prompt ''Choose: ''],
      status = Returned, unread = []\<rparr>"
proof -
  note i = demo_image
  have o: "lib_open demo_lib ''in.png'' = Inr [[[10, 20, 30]]]"
    by (simp add: demo_lib_def)
  have y: "lib_save demo_lib [[[10, 20, 30]]] ''out.JPG'' (save_options ''out.JPG'' 100)"
    by (simp add: demo_lib_def lower_def lower_char_def)
  have n: "\<not> lib_save demo_lib [[[10, 20, 30]]] ''out.xyz'' (save_options ''out.xyz'' 100)"
    by (simp add: demo_lib_def lower_def lower_char_def)
  show ?thesis
    using i o y n
      save_choice [THEN conjunct1, rule_format,
        where st = "\<lparr>store = demo_store, current = 0, modified = True,
          stdin = [''9'', ''out.JPG'', ''0''], console = []\<rparr>"
          and path = "''out.JPG''" and rest = "[''0'']" and d = "[[[10, 20, 30]]]"
          and L = demo_lib]
      save_choice [THEN conjunct2, THEN conjunct1, rule_format,
        where st = "\<lparr>store = demo_store, current = 0, modified = True,
          stdin = [''9'', ''out.xyz'', ''0''], console = []\<rparr>"
          and path = "''out.xyz''" and rest = "[''0'']" and d = "[[[10, 20, 30]]]"
          and L = demo_lib]
      save_choice [THEN conjunct2, THEN conjunct2, THEN conjunct1, rule_format,
        where st = "\<lparr>store = demo_store, current = 0, modified = False,
          stdin = [''9'', ''0''], console = []\<rparr>" and rest = "[''0'']" and L = demo_lib]
      save_choice [THEN conjunct2, THEN conjunct2, THEN conjunct2, rule_format,
        where L = demo_lib and path = "''in.png''" and d = "[[[10, 20, 30]]]" and rest = "[]"]
    by simp
qed

text \<open>
  Claim C5: for every RGB image and every library whose colour conversion and equaliser keep
  the shape of their argument, histogram equalisation returns a new image; it is the
  conversion back to RGB of an array whose channel 0 is the equalised channel 0 of the
  YCrCb conversion of the input and whose other channels are those of that conversion, and
  it has the shape (height, width and channel counts) of the input.
\<close>

theorem hist_eq_luma_only:
  assumes "image_at h img = Some d" and "keeps_shape L"
    and "list_all (list_all (\<lambda>px. length px = 3)) d"
  shows "\<exists>r h' y'. apply_hist_eq L h img = Some (r, h') \<and>
     map (map hd) y' = lib_equalizeHist L (map (map hd) (lib_cvtColor L d COLOR_RGB2YCrCb)) \<and>
     map (map tl) y' = map (map tl) (lib_cvtColor L d COLOR_RGB2YCrCb) \<and>
     image_at h' r = Some (lib_cvtColor L y' COLOR_YCrCb2RGB) \<and>
     shape3 (lib_cvtColor L y' COLOR_YCrCb2RGB) = shape3 d"
proof -
  define y where "y = lib_cvtColor L d COLOR_RGB2YCrCb"
  define p where "p = lib_equalizeHist L (map (map hd) y)"
  have sy: "shape3 y = shape3 d"
    using assms(2) by (simp add: keeps_shape_def y_def)
  then have ne: "\<forall>row \<in> set y. \<forall>px \<in> set row. px \<noteq> []"
    using assms(3) rgb_pixels_nonempty by blast
  then have c0: "channel0 y = Some (map (map hd) y)"
    by (simp add: channel0_def)
  have "shape2 p = shape2 (map (map hd) y)"
    using assms(2) by (simp add: keeps_shape_def p_def)
  then have sp: "shape2 p = shape2 y"
    by (simp add: shape2_def)
  then obtain y' where y': "assign_channel0 y p = Some y'"
    using ne by (simp add: assign_channel0_def)
  then have props: "map (map hd) y' = p" "map (map tl) y' = map (map tl) y" "shape3 y' = shape3 y"
    using assign_channel0_Some by blast+
  have "apply_hist_eq L h img =
      Some (length h + 4,
        h @ [U8Array d, U8Array y', U8Plane p, U8Array (lib_cvtColor L y' COLOR_YCrCb2RGB),
             Image (lib_cvtColor L y' COLOR_YCrCb2RGB)])"
    using c0 y' by (simp add: apply_hist_eq_Some [OF assms(1)] Let_def y_def [symmetric] p_def [symmetric])
  moreover have "shape3 (lib_cvtColor L y' COLOR_YCrCb2RGB) = shape3 d"
    using assms(2) props(3) sy by (simp add: keeps_shape_def)
  ultimately show ?thesis
    using props by (auto simp: image_at_def nth_append y_def p_def)
qed

theorem hist_eq_luma_only_witness:
  "image_at demo_store 0 = Some [[[10, 20, 30]]] \<and> keeps_shape demo_lib \<and>
   list_all (list_all (\<lambda>px. length px = 3)) [[[10, 20, 30 :: u8]]] \<and>
   (\<exists>r h' y'. apply_hist_eq demo_lib demo_store 0 = Some (r, h') \<and>
     map (map hd) y' =
       lib_equalizeHist demo_lib
         (map (map hd) (lib_cvtColor demo_lib [[[10, 20, 30]]] COLOR_RGB2YCrCb)) \<and>
     map (map tl) y' = map (map tl) (lib_cvtColor demo_lib [[[10, 20, 30]]] COLOR_RGB2YCrCb) \<and>
     image_at h' r = Some (lib_cvtColor demo_lib y' COLOR_YCrCb2RGB) \<and>
     shape3 (lib_cvtColor demo_lib y' COLOR_YCrCb2RGB) = shape3 [[[10, 20, 30 :: u8]]])"
proof -
  note i = demo_image
  have k: "keeps_shape demo_lib"
    by (simp add: keeps_shape_def demo_lib_def)
  have c: "list_all (list_all (\<lambda>px. length px = 3)) [[[10, 20, 30 :: u8]]]"
    by simp
  from i k c hist_eq_luma_only [OF i k c] show ?thesis by blast
qed



text \<open>
  Claim C7: whenever one of the seven operations returns, every object that was in the store
  before the call is unchanged (the store before is a prefix of the store after), the input
  image in particular; the result is a new reference, and it refers to an image.
\<close>

theorem inputs_not_mutated:
  assumes "res \<in> {apply_gamma L h img x, apply_hist_eq L h img, adjust_brightness L h img x,
      adjust_contrast L h img x, adjust_sharpness L h img x, adjust_saturation L h img x,
      adjust_exposure L h img x}"
    and "res = Some (r, h')"
  shows "prefix h h' \<and> length h \<le> r \<and> r < length h' \<and>
     (\<exists>d. image_at h img = Some d \<and> image_at h' img = Some d) \<and>
     (\<exists>d'. image_at h' r = Some d')"
proof -
  from assms consider
      "apply_gamma L h img x = Some (r, h')" | "apply_hist_eq L h img = Some (r, h')"
    | k where "enhance L k h img x = Some (r, h')" | "adjust_exposure L h img x = Some (r, h')"
    unfolding adjust_brightness_def adjust_contrast_def adjust_sharpness_def
      adjust_saturation_def by auto
  then show ?thesis
    by cases (rule apply_gamma_frame apply_hist_eq_frame enhance_frame adjust_exposure_frame,
        assumption)+
qed

theorem inputs_not_mutated_witness:
  "apply_hist_eq demo_lib demo_store 0 =
     Some (5, [Image [[[10, 20, 30]]], U8Array [[[10, 20, 30]]], U8Array [[[10, 20, 30]]],
               U8Plane [[10]], U8Array [[[10, 20, 30]]], Image [[[10, 20, 30]]]]) \<and>
   prefix demo_store
     [Image [[[10, 20, 30]]], U8Array [[[10, 20, 30]]], U8Array [[[10, 20, 30]]],
      U8Plane [[10]], U8Array [[[10, 20, 30]]], Image [[[10, 20, 30]]]] \<and>
   length demo_store \<le> 5"
proof -
  note e = demo_hist_eq
  have "apply_hist_eq demo_lib demo_store 0 \<in>
      {apply_gamma demo_lib demo_store 0 (Finite 1), apply_hist_eq demo_lib demo_store 0,
       adjust_brightness demo_lib demo_store 0 (Finite 1),
       adjust_contrast demo_lib demo_store 0 (Finite 1),
       adjust_sharpness demo_lib demo_store 0 (Finite 1),
       adjust_saturation demo_lib demo_store 0 (Finite 1),
       adjust_exposure demo_lib demo_store 0 (Finite 1)}"
    by simp
  from inputs_not_mutated [OF this e] e show ?thesis by blast
qed

text \<open>
  Claim C8: with factor 1, brightness, contrast, sharpness and saturation return a new image
  whose pixels are exactly those of the input (for every image, and every library whose
  reference image has the size of the image it is built from).
\<close>

theorem factor_one_identity:
  assumes "image_at h img = Some d" and "\<forall>k. shape3 (lib_degenerate L k d) = shape3 d"
  shows "adjust_brightness L h img (Finite 1) =
           Some (length h + 1, h @ [Image (lib_degenerate L Brightness d), Image d]) \<and>
         adjust_contrast L h img (Finite 1) =
           Some (length h + 1, h @ [Image (lib_degenerate L Contrast d), Image d]) \<and>
         adjust_sharpness L h img (Finite 1) =
           Some (length h + 1, h @ [Image (lib_degenerate L Sharpness d), Image d]) \<and>
         adjust_saturation L h img (Finite 1) =
           Some (length h + 1, h @ [Image (lib_degenerate L Color d), Image d])"
  using assms
  by (simp add: adjust_brightness_def adjust_contrast_def adjust_sharpness_def
      adjust_saturation_def enhance_Some blend_image_one)

theorem factor_one_identity_witness:
  "image_at demo_store 0 = Some [[[10, 20, 30]]] \<and>
   (\<forall>k. shape3 (lib_degenerate demo_lib k [[[10, 20, 30]]]) = shape3 [[[10, 20, 30 :: u8]]]) \<and>
   adjust_brightness demo_lib demo_store 0 (Finite 1) =
     Some (2, [Image [[[10, 20, 30]]], Image [[[0, 0, 0]]], Image [[[10, 20, 30]]]])"
proof -
  note i = demo_image
  have s: "\<forall>k. shape3 (lib_degenerate demo_lib k [[[10, 20, 30]]]) = shape3 [[[10, 20, 30 :: u8]]]"
    by (simp add: demo_lib_def shape3_def)
  have "adjust_brightness demo_lib demo_store 0 (Finite 1) =
     Some (2, [Image [[[10, 20, 30]]], Image [[[0, 0, 0]]], Image [[[10, 20, 30]]]])"
    using factor_one_identity [OF i s, THEN conjunct1]
    by (simp add: demo_store_def demo_lib_def)
  with i s show ?thesis by blast
qed

text \<open>
  Claim C9: when loading fails, \<^verbatim>\<open>main\<close> prints the error after the one prompt, returns
  without reading another line, and the process exits with status 0.
\<close>

theorem load_failure_returns:
  "lib_open L path = Inl e \<Longrightarrow>
     main L (path # rest) =
       \<lparr>events = [Prompt ''Path: '', Print (''Error loading image: '' @ e)],
        status = Returned, unread = rest\<rparr> \<and>
     exit_code (status (main L (path # rest))) = 0"
  by (simp add: main_def load_image_def exit_code_def)

theorem load_failure_returns_witness:
  "lib_open demo_lib ''missing.png'' = Inl ''cannot open'' \<and>
   main demo_lib [''missing.png'', ''1'', ''2'', ''0''] =
       \<lparr>events = [Prompt ''Path: '', Print (''Error loading image: '' @ ''cannot open'')],
        status = Returned, unread = [''1'', ''2'', ''0'']\<rparr> \<and>
   exit_code (status (main demo_lib [''missing.png'', ''1'', ''2'', ''0''])) = 0"
proof -
  have h: "lib_open demo_lib ''missing.png'' = Inl ''cannot open''"
    by (simp add: demo_lib_def)
  from h load_failure_returns [OF h, of "[''1'', ''2'', ''0'']"] show ?thesis by blast
qed



end
